theory Spec2Isabelle
  imports Complex_Main
begin

section \<open>Conventions\<close>

text \<open>
  The Go program works on \<^verbatim>\<open>float64\<close> coordinates and on byte strings.  In this
  development a \<^verbatim>\<open>float64\<close> is idealised as a \<^typ>\<open>real\<close> (no rounding error, no
  NaN, no infinities), and a Go \<^verbatim>\<open>string\<close> is a \<^typ>\<open>string\<close>, a list of bytes.
  A Go function that returns a value together with an \<^verbatim>\<open>ok\<close> flag returns an
  \<^typ>\<open>'a option\<close> here; a function that can panic returns a sum with the panic on the
  left.  Loops over slices are recursive functions over lists, named after what they
  compute; the state a loop carries is an argument.  Debug output is left out.

  The repository holds several copies of the same functions.  Where two copies have the
  same body one embedding stands for both; where they differ, the copy that belongs to
  the weld detector (the first part of src/weld\_detector.go) carries the suffix \<open>_wd\<close>.
\<close>

section \<open>Weld symbol detection (weld\_detector.go, weld\_integration.go)\<close>

text \<open>
  The two files carry the same code for \<^verbatim>\<open>distance\<close>, \<^verbatim>\<open>lengthsMatch\<close>,
  \<^verbatim>\<open>linesIntersect\<close>, \<^verbatim>\<open>detectWeldSymbols\<close> and \<^verbatim>\<open>removeDuplicateSymbols\<close>
  (once as methods of the detector, once as plain functions); one embedding covers both.
  The field \<^verbatim>\<open>Layer\<close> exists in three structs of the program, so the records below
  call it \<open>SegLayer\<close> and \<open>SymLayer\<close>.
\<close>

record PolylineSegment =
  X1 :: real
  Y1 :: real
  X2 :: real
  Y2 :: real
  SegLayer :: string
  Length :: real

record WeldSymbol =
  CenterX :: real
  CenterY :: real
  Length1 :: real
  Length2 :: real
  SymLayer :: string
  Confidence :: real

definition weldLengthPairs :: "(real \<times> real) list" where
  "weldLengthPairs = [(4.0311, 6.9462), (6.8964, 3.9446), (6.9000, 4.0000)]"

definition targetLengths :: "real list" where
  "targetLengths = [4.0311, 6.9462, 6.8964, 3.9446, 6.9000, 4.0000]"

definition distance :: "real \<Rightarrow> real \<Rightarrow> real \<Rightarrow> real \<Rightarrow> real" where
  "distance x1 y1 x2 y2 =
     (let dx = x2 - x1; dy = y2 - y1 in sqrt (dx * dx + dy * dy))"

definition isTargetLength :: "real \<Rightarrow> bool" where
  "isTargetLength len =
     (let tolerance = 0.01 in list_ex (\<lambda>target. \<bar>len - target\<bar> \<le> tolerance) targetLengths)"

definition lengthsMatch :: "real \<Rightarrow> real \<Rightarrow> bool" where
  "lengthsMatch len1 len2 =
     (let tolerance = 0.01 in
      list_ex (\<lambda>pair.
          (\<bar>len1 - fst pair\<bar> \<le> tolerance \<and> \<bar>len2 - snd pair\<bar> \<le> tolerance) \<or>
          (\<bar>len1 - snd pair\<bar> \<le> tolerance \<and> \<bar>len2 - fst pair\<bar> \<le> tolerance))
        weldLengthPairs)"

text \<open>\<^verbatim>\<open>linesIntersect\<close> returns \<^verbatim>\<open>(0, 0, false)\<close> for "no intersection": \<open>None\<close>.\<close>

definition linesIntersect :: "PolylineSegment \<Rightarrow> PolylineSegment \<Rightarrow> (real \<times> real) option" where
  "linesIntersect seg1 seg2 =
     (let x1 = X1 seg1; y1 = Y1 seg1; x2 = X2 seg1; y2 = Y2 seg1;
          x3 = X1 seg2; y3 = Y1 seg2; x4 = X2 seg2; y4 = Y2 seg2;
          denom = (x1 - x2) * (y3 - y4) - (y1 - y2) * (x3 - x4)
      in if \<bar>denom\<bar> < 1 / 10 ^ 10 then None
         else
           let t = ((x1 - x3) * (y3 - y4) - (y1 - y3) * (x3 - x4)) / denom;
               u = - ((x1 - x2) * (y1 - y3) - (y1 - y2) * (x1 - x3)) / denom
           in if t \<ge> 0 \<and> t \<le> 1 \<and> u \<ge> 0 \<and> u \<le> 1
              then Some (x1 + t * (x2 - x1), y1 + t * (y2 - y1))
              else None)"

text \<open>
  The body of the pair loop of \<^verbatim>\<open>detectWeldSymbols\<close>: every \<^verbatim>\<open>continue\<close> is a
  \<open>None\<close>, the appended symbol is a \<open>Some\<close>.
\<close>

definition weldCandidate :: "PolylineSegment \<Rightarrow> PolylineSegment \<Rightarrow> WeldSymbol option" where
  "weldCandidate seg1 seg2 =
     (if \<not> lengthsMatch (Length seg1) (Length seg2) then None
      else case linesIntersect seg1 seg2 of
        None \<Rightarrow> None
      | Some (ix, iy) \<Rightarrow>
          let mid1X = (X1 seg1 + X2 seg1) / 2; mid1Y = (Y1 seg1 + Y2 seg1) / 2;
              mid2X = (X1 seg2 + X2 seg2) / 2; mid2Y = (Y1 seg2 + Y2 seg2) / 2;
              distToMid1 = distance ix iy mid1X mid1Y;
              distToMid2 = distance ix iy mid2X mid2Y;
              tolerance1 = Length seg1 * 0.3;
              tolerance2 = Length seg2 * 0.3
          in if distToMid1 > tolerance1 \<or> distToMid2 > tolerance2 then None
             else
               let maxTolerance = max tolerance1 tolerance2;
                   maxDistToMid = max distToMid1 distToMid2;
                   confidence = 1.0 - (maxDistToMid / maxTolerance)
               in Some \<lparr>CenterX = ix, CenterY = iy,
                         Length1 = Length seg1, Length2 = Length seg2,
                         SymLayer = SegLayer seg1, Confidence = confidence\<rparr>)"

text \<open>The loops \<^verbatim>\<open>for i\<close>, \<^verbatim>\<open>for j := i + 1\<close> over the segment slice.\<close>

fun candidatePairs :: "PolylineSegment list \<Rightarrow> WeldSymbol list" where
  "candidatePairs [] = []"
| "candidatePairs (seg1 # rest) =
     List.map_filter (weldCandidate seg1) rest @ candidatePairs rest"

definition isDuplicate :: "WeldSymbol \<Rightarrow> WeldSymbol list \<Rightarrow> bool" where
  "isDuplicate symbol unique =
     (let duplicateThreshold = 5.0 in
      list_ex (\<lambda>existing.
          distance (CenterX symbol) (CenterY symbol) (CenterX existing) (CenterY existing)
            < duplicateThreshold) unique)"

text \<open>The loop of \<^verbatim>\<open>removeDuplicateSymbols\<close>, with the slice \<^verbatim>\<open>unique\<close> as accumulator.\<close>

fun dedupLoop :: "WeldSymbol list \<Rightarrow> WeldSymbol list \<Rightarrow> WeldSymbol list" where
  "dedupLoop unique [] = unique"
| "dedupLoop unique (symbol # rest) =
     (if isDuplicate symbol unique then dedupLoop unique rest
      else dedupLoop (unique @ [symbol]) rest)"

definition removeDuplicateSymbols :: "WeldSymbol list \<Rightarrow> WeldSymbol list" where
  "removeDuplicateSymbols symbols =
     (if length symbols \<le> 1 then symbols else dedupLoop [] symbols)"

definition detectWeldSymbols :: "PolylineSegment list \<Rightarrow> WeldSymbol list" where
  "detectWeldSymbols segments =
     (if length segments = 0 then []
      else removeDuplicateSymbols (candidatePairs segments))"

text \<open>
  A list is \<open>spaced\<close> after \<open>unique\<close> when the deduplication loop, started with
  \<open>unique\<close>, keeps each of its elements.
\<close>

fun spaced :: "WeldSymbol list \<Rightarrow> WeldSymbol list \<Rightarrow> bool" where
  "spaced unique [] = True"
| "spaced unique (symbol # rest) =
     (\<not> isDuplicate symbol unique \<and> spaced (unique @ [symbol]) rest)"

section \<open>Strings (the functions of Go's \<^verbatim>\<open>strings\<close> package that the program calls)\<close>

text \<open>
  The case mappings and \<^verbatim>\<open>TrimSpace\<close> are modelled on ASCII: bytes outside ASCII are
  left alone by \<open>toUpper\<close> and \<open>toLower\<close> and are never white space.
\<close>

definition toUpperChar :: "char \<Rightarrow> char" where
  "toUpperChar c =
     (case map_of (zip ''abcdefghijklmnopqrstuvwxyz'' ''ABCDEFGHIJKLMNOPQRSTUVWXYZ'') c of
        Some u \<Rightarrow> u | None \<Rightarrow> c)"

definition toLowerChar :: "char \<Rightarrow> char" where
  "toLowerChar c =
     (case map_of (zip ''ABCDEFGHIJKLMNOPQRSTUVWXYZ'' ''abcdefghijklmnopqrstuvwxyz'') c of
        Some l \<Rightarrow> l | None \<Rightarrow> c)"

definition toUpper :: "string \<Rightarrow> string" where
  "toUpper s = map toUpperChar s"

definition toLower :: "string \<Rightarrow> string" where
  "toLower s = map toLowerChar s"

definition isSpace :: "char \<Rightarrow> bool" where
  "isSpace c = (c \<in> set [CHR '' '', CHR 0x09, CHR 0x0A, CHR 0x0B, CHR 0x0C, CHR 0x0D])"

definition trimSpace :: "string \<Rightarrow> string" where
  "trimSpace s = rev (dropWhile isSpace (rev (dropWhile isSpace s)))"

fun hasPrefix :: "string \<Rightarrow> string \<Rightarrow> bool" where
  "hasPrefix s [] = True"
| "hasPrefix [] (p # ps) = False"
| "hasPrefix (c # cs) (p # ps) = (c = p \<and> hasPrefix cs ps)"

text \<open>\<^verbatim>\<open>strings.Contains(s, substr)\<close>.\<close>

fun contains :: "string \<Rightarrow> string \<Rightarrow> bool" where
  "contains [] substr = (substr = [])"
| "contains (c # cs) substr = (hasPrefix (c # cs) substr \<or> contains cs substr)"

definition hasSuffix :: "string \<Rightarrow> string \<Rightarrow> bool" where
  "hasSuffix s suffix = hasPrefix (rev s) (rev suffix)"

definition trimSuffix :: "string \<Rightarrow> string \<Rightarrow> string" where
  "trimSuffix s suffix =
     (if hasSuffix s suffix then take (length s - length suffix) s else s)"

definition isDigit :: "char \<Rightarrow> bool" where
  "isDigit c = (c \<in> set ''0123456789'')"

definition isUpperLetter :: "char \<Rightarrow> bool" where
  "isUpperLetter c = (c \<in> set ''ABCDEFGHIJKLMNOPQRSTUVWXYZ'')"

definition isLowerLetter :: "char \<Rightarrow> bool" where
  "isLowerLetter c = (c \<in> set ''abcdefghijklmnopqrstuvwxyz'')"

text \<open>
  \<^verbatim>\<open>strconv.ParseFloat\<close> belongs to Go's library, not to this program.  Every function
  that calls it takes it as the parameter \<open>pf\<close>: \<open>pf s = Some v\<close> when the call returns
  the value \<open>v\<close> with a nil error, \<open>None\<close> when it returns an error.  The theorems hold
  for every such parameter.  \<open>parseDecimal\<close> is an instance for the examples; it reads
  an optional sign, digits and an optional fraction, on which it agrees with the library.
\<close>

definition digitValue :: "char \<Rightarrow> nat" where
  "digitValue c = (case map_of (zip ''0123456789'' [0, 1, 2, 3, 4, 5, 6, 7, 8, 9]) c of
                     Some d \<Rightarrow> d | None \<Rightarrow> 0)"

fun digitsValue :: "nat \<Rightarrow> string \<Rightarrow> nat" where
  "digitsValue acc [] = acc"
| "digitsValue acc (c # cs) = digitsValue (acc * 10 + digitValue c) cs"

definition parseUnsigned :: "string \<Rightarrow> real option" where
  "parseUnsigned s =
     (let ip = takeWhile isDigit s; rest = dropWhile isDigit s
      in if rest = [] then (if ip = [] then None else Some (real (digitsValue 0 ip)))
         else if hd rest = CHR ''.'' \<and> list_all isDigit (tl rest) \<and> (ip \<noteq> [] \<or> tl rest \<noteq> [])
         then Some (real (digitsValue 0 ip) + real (digitsValue 0 (tl rest)) / 10 ^ length (tl rest))
         else None)"

definition parseDecimal :: "string \<Rightarrow> real option" where
  "parseDecimal s =
     (case s of
        [] \<Rightarrow> None
      | c # cs \<Rightarrow>
          if c = CHR ''-'' then map_option uminus (parseUnsigned cs)
          else if c = CHR ''+'' then parseUnsigned cs
          else parseUnsigned s)"

section \<open>Cut-length rows (src/unnamed/part\_003, lines 323 to 436)\<close>

text \<open>\<^verbatim>\<open>pieceNumberPattern\<close> is the regular expression \<^verbatim>\<open>^<\d+>$\<close>.\<close>

definition pieceNumberPattern :: "string \<Rightarrow> bool" where
  "pieceNumberPattern s =
     (case s of
        [] \<Rightarrow> False
      | c # rest \<Rightarrow>
          c = CHR ''<'' \<and> rest \<noteq> [] \<and> last rest = CHR ''>'' \<and>
          butlast rest \<noteq> [] \<and> list_all isDigit (butlast rest))"

definition isPieceNumber :: "string \<Rightarrow> bool" where
  "isPieceNumber text = pieceNumberPattern (trimSpace text)"

definition isNumber :: "(string \<Rightarrow> real option) \<Rightarrow> string \<Rightarrow> bool" where
  "isNumber pf text = (pf (trimSpace text) \<noteq> None)"

definition isTextRemark :: "(string \<Rightarrow> real option) \<Rightarrow> string \<Rightarrow> bool" where
  "isTextRemark pf text =
     (let textStr = trimSpace text
      in if textStr = [] then False
         else \<not> isPieceNumber textStr \<and> \<not> isNumber pf textStr)"

record pieceGroup =
  piece :: string
  numbers :: "string list"
  remarks :: "string list"

text \<open>The first loop of \<^verbatim>\<open>validateAndCorrectCutLengthRow\<close>: index and trimmed text of
  every piece-number cell, \<open>i\<close> being the index of the first cell of the list.\<close>

fun findPieces :: "nat \<Rightarrow> string list \<Rightarrow> (nat \<times> string) list" where
  "findPieces i [] = []"
| "findPieces i (cell # rest) =
     (let cellStr = trimSpace cell
      in if isPieceNumber cellStr then (i, cellStr) # findPieces (Suc i) rest
         else findPieces (Suc i) rest)"

text \<open>The inner loop over the cells between a piece and the next one.\<close>

fun collectCells :: "(string \<Rightarrow> real option) \<Rightarrow> pieceGroup \<Rightarrow> string list \<Rightarrow> pieceGroup" where
  "collectCells pf grp [] = grp"
| "collectCells pf grp (cell # rest) =
     (let cellStr = trimSpace cell
      in if cellStr = [] then collectCells pf grp rest
         else if isNumber pf cellStr
         then collectCells pf (grp\<lparr>numbers := numbers grp @ [cellStr]\<rparr>) rest
         else if isTextRemark pf cellStr
         then collectCells pf (grp\<lparr>remarks := remarks grp @ [cellStr]\<rparr>) rest
         else collectCells pf grp rest)"

text \<open>The loop over the pieces; the cells \<^verbatim>\<open>row[piece.index+1 : endPos]\<close> are scanned.\<close>

fun pieceGroups ::
  "(string \<Rightarrow> real option) \<Rightarrow> string list \<Rightarrow> (nat \<times> string) list \<Rightarrow> pieceGroup list" where
  "pieceGroups pf row [] = []"
| "pieceGroups pf row (p # later) =
     (let endPos = (case later of [] \<Rightarrow> length row | nxt # _ \<Rightarrow> fst nxt);
          cells = take (endPos - (fst p + 1)) (drop (fst p + 1) row)
      in collectCells pf \<lparr>piece = snd p, numbers = [], remarks = []\<rparr> cells
           # pieceGroups pf row later)"

text \<open>One round of the filling loop: piece number, up to two numbers, first remark.\<close>

definition placeGroup :: "nat \<Rightarrow> pieceGroup \<Rightarrow> string list \<Rightarrow> string list" where
  "placeGroup baseCol grp corrected =
     (let c1 = corrected[baseCol := piece grp];
          c2 = (case numbers grp of
                  [] \<Rightarrow> c1
                | [n0] \<Rightarrow> c1[baseCol + 1 := n0]
                | n0 # n1 # _ \<Rightarrow> c1[baseCol + 1 := n0, baseCol + 2 := n1])
      in if length (remarks grp) > 0 then c2[baseCol + 3 := hd (remarks grp)] else c2)"

fun fillGroups :: "nat \<Rightarrow> pieceGroup list \<Rightarrow> string list \<Rightarrow> string list" where
  "fillGroups groupIdx [] corrected = corrected"
| "fillGroups groupIdx (grp # later) corrected =
     fillGroups (Suc groupIdx) later (placeGroup (groupIdx * 4) grp corrected)"

definition validateAndCorrectCutLengthRow ::
  "(string \<Rightarrow> real option) \<Rightarrow> string list \<Rightarrow> string list" where
  "validateAndCorrectCutLengthRow pf row =
     (if length row = 0 then row
      else
        let corrected = replicate 8 [];
            pieces = findPieces 0 row
        in if length pieces = 0
           then take 8 row @ replicate (8 - length row) []
           else
             let groups = pieceGroups pf row pieces;
                 maxPieces = (if length groups < 2 then length groups else 2)
             in fillGroups 0 (take maxPieces groups) corrected)"

section \<open>Text entities and the drawing-number locator (src/unnamed/part\_003, lines 563 to 629)\<close>

record TextEntity =
  Content :: string
  X :: real
  Y :: real
  Height :: real
  EntityType :: string
  Layer :: string

text \<open>\<^verbatim>\<open>abs\<close> of the program; the name is taken in HOL.\<close>

definition absFloat :: "real \<Rightarrow> real" where
  "absFloat v = (if v < 0 then - v else v)"

text \<open>
  \<^verbatim>\<open>kksPattern\<close> is the regular expression \<^verbatim>\<open>\b\d[A-Z]{3}\d{2}BR\d{3}\b\<close>.  The classes
  \<^verbatim>\<open>\d\<close> and \<^verbatim>\<open>\b\<close> of Go's \<^verbatim>\<open>regexp\<close> are ASCII classes.  \<open>kksAt s\<close> says that
  the eleven characters and the closing word boundary match at the head of \<open>s\<close>;
  \<open>kksScan\<close> is \<^verbatim>\<open>FindString\<close>, the leftmost match or the empty string, and carries
  whether the previous character was a word character (the opening word boundary).
\<close>

definition isWordChar :: "char \<Rightarrow> bool" where
  "isWordChar c = (isDigit c \<or> isUpperLetter c \<or> isLowerLetter c \<or> c = CHR ''_'')"

definition kksAt :: "string \<Rightarrow> bool" where
  "kksAt s =
     (length s \<ge> 11 \<and>
      isDigit (s ! 0) \<and>
      isUpperLetter (s ! 1) \<and> isUpperLetter (s ! 2) \<and> isUpperLetter (s ! 3) \<and>
      isDigit (s ! 4) \<and> isDigit (s ! 5) \<and>
      s ! 6 = CHR ''B'' \<and> s ! 7 = CHR ''R'' \<and>
      isDigit (s ! 8) \<and> isDigit (s ! 9) \<and> isDigit (s ! 10) \<and>
      (length s = 11 \<or> \<not> isWordChar (s ! 11)))"

fun kksScan :: "bool \<Rightarrow> string \<Rightarrow> string" where
  "kksScan prevWord [] = []"
| "kksScan prevWord (c # cs) =
     (if \<not> prevWord \<and> kksAt (c # cs) then take 11 (c # cs)
      else kksScan (isWordChar c) cs)"

definition kksFindString :: "string \<Rightarrow> string" where
  "kksFindString s = kksScan False s"

text \<open>The local struct \<^verbatim>\<open>candidate{value, x, y, absY}\<close> of \<^verbatim>\<open>findDrawingNo\<close>.\<close>

record candidate =
  candValue :: string
  candX :: real
  candY :: real
  candAbsY :: real

text \<open>
  The candidate loop, given the anchor found by the first loop (\<open>None\<close> when
  \<^verbatim>\<open>erectionX\<close> and \<^verbatim>\<open>erectionY\<close> stay nil).
\<close>

fun kksCandidates :: "TextEntity option \<Rightarrow> TextEntity list \<Rightarrow> candidate list" where
  "kksCandidates erection [] = []"
| "kksCandidates erection (entity # rest) =
     (let match = kksFindString (Content entity)
      in if match \<noteq> [] then
           (case erection of
              Some a \<Rightarrow>
                if X entity \<ge> X a \<and> Y entity \<le> Y a
                then \<lparr>candValue = match, candX = X entity, candY = Y entity,
                      candAbsY = absFloat (Y entity)\<rparr> # kksCandidates erection rest
                else kksCandidates erection rest
            | None \<Rightarrow>
                \<lparr>candValue = match, candX = X entity, candY = Y entity,
                 candAbsY = absFloat (Y entity)\<rparr> # kksCandidates erection rest)
         else kksCandidates erection rest)"

text \<open>
  The fallback loop over fragments that contain "Drawing-No.": the first of the next four
  fragments that lies to the right or below is returned.
\<close>

fun drawingNoLabelScan :: "TextEntity list \<Rightarrow> string" where
  "drawingNoLabelScan [] = []"
| "drawingNoLabelScan (entity # rest) =
     (if contains (Content entity) ''Drawing-No.'' then
        (case find (\<lambda>nextEntity. X nextEntity > X entity \<or> Y nextEntity < Y entity)
                (take 4 rest) of
           Some nextEntity \<Rightarrow> Content nextEntity
         | None \<Rightarrow> drawingNoLabelScan rest)
      else drawingNoLabelScan rest)"

text \<open>
  \<^verbatim>\<open>sort.Slice\<close> is modelled by the insertion sort \<open>sort_key\<close>.  Go leaves the order
  of equal keys open; the properties below do not depend on it.
\<close>

text \<open>The first loop of \<^verbatim>\<open>findDrawingNo\<close>: the first fragment that contains the
  materials-table title, compared in upper case.\<close>

definition erectionAnchor :: "TextEntity list \<Rightarrow> TextEntity option" where
  "erectionAnchor textEntities =
     find (\<lambda>entity. contains (toUpper (Content entity)) ''ERECTION MATERIALS'') textEntities"

definition findDrawingNo :: "TextEntity list \<Rightarrow> string" where
  "findDrawingNo textEntities =
     (let erection = erectionAnchor textEntities;
          candidates = kksCandidates erection textEntities
      in if length candidates > 0
         then candValue (hd (sort_key candAbsY candidates))
         else drawingNoLabelScan textEntities)"

section \<open>CSV post-processing of the materials file (src/spatial.go, lines 2185 to 2305)\<close>

text \<open>
  A Go index or slice expression out of range panics; the functions that can reach one
  return a sum whose left side is the panic.
\<close>

datatype goPanic = IndexOutOfRange | SliceBoundsOutOfRange

text \<open>
  \<^verbatim>\<open>fixMissingNSColumns\<close> reads the records of the file, changes them and writes them
  back.  The embedding starts from the records that \<^verbatim>\<open>ReadAll\<close> returned (the header
  first) and returns the records the file holds afterwards.

  The header loop sets four index variables in one \<^verbatim>\<open>switch\<close>; \<open>findColumn\<close> is that
  loop for one of the names: the last column whose trimmed text is the name, \<open>None\<close>
  for the initial -1.
\<close>

fun findColumn :: "string \<Rightarrow> nat \<Rightarrow> nat option \<Rightarrow> string list \<Rightarrow> nat option" where
  "findColumn name i found [] = found"
| "findColumn name i found (col # rest) =
     findColumn name (Suc i) (if trimSpace col = name then Some i else found) rest"

text \<open>The body of the row loop; the flag says whether the row was shifted.\<close>

definition shiftRow ::
  "nat \<Rightarrow> nat \<Rightarrow> nat \<Rightarrow> nat \<Rightarrow> string list \<Rightarrow> goPanic + (string list \<times> bool)" where
  "shiftRow ptNoIdx nsIdx qtyIdx weightIdx row0 =
     (let row = row0 @ replicate (weightIdx + 1 - length row0) []
      in if ptNoIdx \<ge> length row then Inl IndexOutOfRange
         else
           let ptNo = trimSpace (row ! ptNoIdx);
               weight = trimSpace (row ! weightIdx)
           in if ptNo \<noteq> [] \<and> weight = [] then
                (if qtyIdx \<ge> length row \<or> nsIdx \<ge> length row then Inl IndexOutOfRange
                 else Inr (row[weightIdx := row ! qtyIdx, qtyIdx := row ! nsIdx, nsIdx := []],
                           True))
              else Inr (row, False))"

fun shiftRows ::
  "nat \<Rightarrow> nat \<Rightarrow> nat \<Rightarrow> nat \<Rightarrow> string list list \<Rightarrow> goPanic + (string list \<times> bool) list" where
  "shiftRows ptNoIdx nsIdx qtyIdx weightIdx [] = Inr []"
| "shiftRows ptNoIdx nsIdx qtyIdx weightIdx (row # rest) =
     (case shiftRow ptNoIdx nsIdx qtyIdx weightIdx row of
        Inl e \<Rightarrow> Inl e
      | Inr r \<Rightarrow>
          (case shiftRows ptNoIdx nsIdx qtyIdx weightIdx rest of
             Inl e \<Rightarrow> Inl e
           | Inr rs \<Rightarrow> Inr (r # rs)))"

text \<open>The body of the QTY cleaning loop; the flag says whether the cell was changed.\<close>

definition cleanQtyCell :: "nat \<Rightarrow> string list \<Rightarrow> string list \<times> bool" where
  "cleanQtyCell qtyIdx row =
     (if length row > qtyIdx then
        let qty = trimSpace (row ! qtyIdx)
        in if qty \<noteq> [] then
             (if hasSuffix (toUpper qty) ''M'' then
                let cleanQty = trimSpace (trimSuffix (toUpper qty) ''M'')
                in if cleanQty \<noteq> qty then (row[qtyIdx := cleanQty], True) else (row, False)
              else (row, False))
           else (row, False)
      else (row, False))"

definition fixMissingNSColumns :: "string list list \<Rightarrow> goPanic + string list list" where
  "fixMissingNSColumns records =
     (if length records = 0 then Inr records
      else
        let header = hd records; rows = tl records in
        case (findColumn ''PT NO'' 0 None header, findColumn ''N.S.'' 0 None header,
              findColumn ''QTY'' 0 None header, findColumn ''WEIGHT'' 0 None header) of
          (Some ptNoIdx, Some nsIdx, Some qtyIdx, Some weightIdx) \<Rightarrow>
            (case shiftRows ptNoIdx nsIdx qtyIdx weightIdx rows of
               Inl e \<Rightarrow> Inl e
             | Inr shifted \<Rightarrow>
                 let correctionCount = length (filter snd shifted);
                     cleaned = map (cleanQtyCell qtyIdx) (map fst shifted);
                     qtyCleanCount = length (filter snd cleaned)
                 in if correctionCount > 0 \<or> qtyCleanCount > 0
                    then Inr (header # map fst cleaned)
                    else Inr records)
        | _ \<Rightarrow> Inr records)"

text \<open>\<^verbatim>\<open>cleanQtyValue\<close> (src/weld\_detector.go, line 225), which strips the same suffix
  from the quantity of the pipe summary.\<close>

definition cleanQtyValue :: "string \<Rightarrow> string" where
  "cleanQtyValue qty0 =
     (let qty = trimSpace qty0
      in if hasSuffix (toUpper qty) ''M''
         then trimSpace (trimSuffix (trimSuffix qty ''M'') ''m'')
         else qty)"

section \<open>Table reconstruction (src/weld\_detector.go, lines 236 to 605 and 1576 to 2010)\<close>

text \<open>
  \<^verbatim>\<open>extractTable\<close> exists twice with the same body.  The copy in the second part of
  src/weld\_detector.go (table\_extraction.go of the build script, lines 1576 to 2010) calls
  the \<^verbatim>\<open>validateAndCorrectCutLengthRow\<close> above and a \<^verbatim>\<open>processErectionMaterialsTable\<close>
  that repairs a missing N.S. column.  The copy in the first part (the weld detector's own,
  lines 236 to 605) calls a \<^verbatim>\<open>validateAndCorrectCutLengthRow\<close> that returns its row as
  it is and a \<^verbatim>\<open>processErectionMaterialsTable\<close> without the repair.  The body is embedded
  once, with the two callees as parameters; the functions of the first part carry the
  suffix \<open>_wd\<close>.
\<close>

text \<open>\<^verbatim>\<open>math.Round\<close> rounds half away from zero.\<close>

definition goRound :: "real \<Rightarrow> real" where
  "goRound v = (if v < 0 then - real_of_int \<lfloor>- v + 1 / 2\<rfloor> else real_of_int \<lfloor>v + 1 / 2\<rfloor>)"

definition yKey :: "real \<Rightarrow> real" where
  "yKey py = goRound (py * 10) / 10"

text \<open>\<^verbatim>\<open>TableCell{X, Text}\<close>; \<^verbatim>\<open>X\<close> is a field of \<open>TextEntity\<close> already.\<close>

record TableCell =
  CellX :: real
  Text :: string

text \<open>
  \<^verbatim>\<open>rowsDict\<close>, a Go map from the rounded Y to the cells of the row, is an association
  list with one entry per key; \<open>addCell\<close> is the append to the slice under a key.
\<close>

fun addCell :: "real \<Rightarrow> TableCell \<Rightarrow> (real \<times> TableCell list) list \<Rightarrow> (real \<times> TableCell list) list" where
  "addCell k c [] = [(k, [c])]"
| "addCell k c (r # rest) =
     (if fst r = k then (fst r, snd r @ [c]) # rest else r # addCell k c rest)"

fun rowsDictOf :: "TextEntity list \<Rightarrow> (real \<times> TableCell list) list \<Rightarrow> (real \<times> TableCell list) list" where
  "rowsDictOf [] rowsDict = rowsDict"
| "rowsDictOf (entity # rest) rowsDict =
     rowsDictOf rest
       (addCell (yKey (Y entity)) \<lparr>CellX = X entity, Text = Content entity\<rparr> rowsDict)"

definition findTitle :: "TextEntity list \<Rightarrow> string \<Rightarrow> TextEntity option" where
  "findTitle textEntities tableTitle =
     find (\<lambda>entity. contains (toLower (Content entity)) (toLower tableTitle)) textEntities"

definition filterEntities :: "TextEntity list \<Rightarrow> string \<Rightarrow> TextEntity \<Rightarrow> TextEntity list" where
  "filterEntities textEntities tableTitle titleEntity =
     (let startX = X titleEntity; titleY = Y titleEntity;
          minX = (if toLower tableTitle = ''cut pipe length'' then startX - 50 else startX)
      in filter (\<lambda>entity. \<not> (Y entity \<ge> titleY) \<and> X entity \<ge> minX) textEntities)"

text \<open>
  The rows in descending Y, the cells of each row in ascending X.  The keys of the map
  are distinct, so the order of the rows is determined; cells with equal X keep their
  order here (\<open>sort_key\<close> is stable), which \<^verbatim>\<open>sort.Slice\<close> leaves open.
\<close>

definition tableRowsOf :: "TextEntity list \<Rightarrow> string list list" where
  "tableRowsOf filteredEntities =
     map (\<lambda>row. map Text (sort_key CellX (snd row)))
       (sort_key (\<lambda>row. - fst row) (rowsDictOf filteredEntities []))"

definition mergeHeaderForCutPipeLength :: "string \<Rightarrow> string \<Rightarrow> string" where
  "mergeHeaderForCutPipeLength h1 h2 =
     (if h1 \<noteq> [] \<and> h2 \<noteq> [] then
        (if h1 = ''N.S.'' \<and> h2 = ''(MM)'' then ''N.S. (MM)''
         else if h1 = ''PIECE'' \<and> h2 = ''NO'' then ''PIECE NO''
         else if h1 = ''CUT'' \<and> h2 = ''LENGTH'' then ''CUT LENGTH''
         else if h1 = ''REMARKS'' \<and> h2 = ''NO'' then ''REMARKS''
         else if h1 = ''REMARKS'' \<and> h2 = [] then ''REMARKS''
         else if h1 = ''PIECE'' \<and> h2 = ''LENGTH'' then ''PIECE NO''
         else if h1 = ''CUT'' \<and> h2 = ''(MM)'' then ''CUT LENGTH''
         else trimSpace (h1 @ '' '' @ h2))
      else if h1 \<noteq> [] \<and> h2 = [] then
        (if h1 = ''PIECE'' then ''PIECE NO''
         else if h1 = ''CUT'' then ''CUT LENGTH''
         else if h1 = ''N.S.'' then ''N.S. (MM)''
         else h1)
      else if h2 \<noteq> [] \<and> h1 = [] then h2
      else [])"

text \<open>\<open>cellAt row i\<close> is \<^verbatim>\<open>row[i]\<close> guarded by \<^verbatim>\<open>i < len(row)\<close>, with the empty string
  otherwise, as the header loop and the padding loop read their cells.\<close>

definition cellAt :: "string list \<Rightarrow> nat \<Rightarrow> string" where
  "cellAt row i = (if i < length row then row ! i else [])"

definition mergeHeaders :: "string \<Rightarrow> string list \<Rightarrow> string list \<Rightarrow> string list" where
  "mergeHeaders tableTitle row0 row1 =
     (let maxHeaderCols = (if length row1 > length row0 then length row1 else length row0)
      in map (\<lambda>i. let h1 = cellAt row0 i; h2 = cellAt row1 i
                  in if toLower tableTitle = ''cut pipe length''
                     then mergeHeaderForCutPipeLength h1 h2
                     else trimSpace (h1 @ '' '' @ h2))
           [0..<maxHeaderCols])"

definition headerAndData :: "string \<Rightarrow> string list list \<Rightarrow> string list \<times> string list list" where
  "headerAndData tableTitle tableRows =
     (if length tableRows \<ge> 2
      then (mergeHeaders tableTitle (tableRows ! 0) (tableRows ! 1), drop 2 tableRows)
      else ((if length tableRows > 0 then tableRows ! 0 else []),
            (if length tableRows > 1 then drop 1 tableRows else [])))"

subsection \<open>The materials table\<close>

text \<open>The first loop of \<^verbatim>\<open>processErectionMaterialsTable\<close>: \<^verbatim>\<open>dataRows[:endIdx]\<close>, where
  \<^verbatim>\<open>endIdx\<close> is one past the first row with a cell containing "TOTAL WEIGHT".\<close>

fun stopAtTotalWeight :: "string list list \<Rightarrow> string list list" where
  "stopAtTotalWeight [] = []"
| "stopAtTotalWeight (row # rest) =
     (if list_ex (\<lambda>cell. contains (toUpper cell) ''TOTAL WEIGHT'') row then [row]
      else row # stopAtTotalWeight rest)"

text \<open>The flags \<^verbatim>\<open>isCategory\<close> and \<^verbatim>\<open>isTotalRow\<close> of a row that is not empty.\<close>

definition rowFlags :: "string list \<Rightarrow> bool \<times> bool" where
  "rowFlags row =
     (if row ! 0 \<noteq> [] then
        (if row ! 0 = ''TOTAL ERECTION WEIGHT'' \<or> row ! 0 = ''TOTAL WEIGHT'' then (True, True)
         else
           let isEmpty1 = (if length row > 1 \<and> row ! 1 \<noteq> [] then False else True);
               isEmpty = (if length row > 3 \<and> row ! 3 \<noteq> [] then False else isEmpty1)
           in (isEmpty, False))
      else (False, False))"

definition totalRow :: "string list \<Rightarrow> string list" where
  "totalRow row =
     (let totalType = row ! 0;
          weightValue = (if length row > 1 then row ! 1 else [])
      in [[], [], [], [], weightValue, totalType])"

text \<open>The end of the data-row branch: the "M" of the quantity, the padding to six
  columns, the category in column F.\<close>

definition finishDataRow :: "string \<Rightarrow> string list \<Rightarrow> string list" where
  "finishDataRow currentCategory newRow0 =
     (let newRow1 = (if length newRow0 > 3 \<and> newRow0 ! 3 \<noteq> []
                     then newRow0[3 := trimSuffix (newRow0 ! 3) ''M''] else newRow0);
          newRow2 = newRow1 @ replicate (6 - length newRow1) []
      in newRow2[5 := currentCategory])"

text \<open>The repair of a missing N.S. column (second copy only, lines 1917 to 1989).\<close>

definition fixMissingNS :: "(string \<Rightarrow> real option) \<Rightarrow> string list \<Rightarrow> string list" where
  "fixMissingNS pf newRow =
     (if length newRow = 5 \<and> newRow ! 0 \<noteq> [] \<and> newRow ! 1 \<noteq> [] then
        let col2 = trimSpace (newRow ! 2);
            col4 = trimSpace (newRow ! 4);
            isCol4ValidWeight =
              (if col4 = ''---'' \<or> col4 = [] then True
               else (case pf col4 of Some v \<Rightarrow> v \<ge> 0 | None \<Rightarrow> False))
        in if isCol4ValidWeight then
             let isCol2LikelyQty =
                   (hasSuffix col2 ''M'' \<or>
                    (case pf col2 of
                       Some v \<Rightarrow> v > 0 \<and> v < 10 \<and> v \<noteq> 15 \<and> v \<noteq> 25 \<and> v \<noteq> 50 \<and>
                                 v \<noteq> 80 \<and> v \<noteq> 100
                     | None \<Rightarrow> False) \<or>
                    (contains col2 ''.'' \<and>
                     (case pf col2 of Some v \<Rightarrow> v > 0 | None \<Rightarrow> False)))
             in if isCol2LikelyQty
                then [newRow ! 0, newRow ! 1, [], newRow ! 2, newRow ! 3, newRow ! 4]
                else newRow
           else newRow
      else newRow)"

definition dataRow :: "(string \<Rightarrow> real option) \<Rightarrow> string \<Rightarrow> string list \<Rightarrow> string list" where
  "dataRow pf currentCategory row = finishDataRow currentCategory (fixMissingNS pf row)"

definition dataRow_wd :: "string \<Rightarrow> string list \<Rightarrow> string list" where
  "dataRow_wd currentCategory row = finishDataRow currentCategory row"

text \<open>The second loop, with \<^verbatim>\<open>currentCategory\<close> as state; \<open>emit\<close> is the data-row
  branch of the copy at hand.\<close>

fun materialsLoop ::
  "(string \<Rightarrow> string list \<Rightarrow> string list) \<Rightarrow> string \<Rightarrow> string list list \<Rightarrow> string list list" where
  "materialsLoop emit currentCategory [] = []"
| "materialsLoop emit currentCategory (row # rest) =
     (if length row = 0 then materialsLoop emit currentCategory rest
      else if fst (rowFlags row) then
        (if snd (rowFlags row) then totalRow row # materialsLoop emit currentCategory rest
         else if row ! 0 \<noteq> ''TOTAL ERECTION WEIGHT'' \<and> row ! 0 \<noteq> ''TOTAL WEIGHT''
         then materialsLoop emit (row ! 0) rest
         else materialsLoop emit currentCategory rest)
      else emit currentCategory row # materialsLoop emit currentCategory rest)"

definition processErectionMaterialsTable ::
  "(string \<Rightarrow> real option) \<Rightarrow> string list list \<Rightarrow> string list list" where
  "processErectionMaterialsTable pf dataRows =
     materialsLoop (dataRow pf) [] (stopAtTotalWeight dataRows)"

definition processErectionMaterialsTable_wd :: "string list list \<Rightarrow> string list list" where
  "processErectionMaterialsTable_wd dataRows =
     materialsLoop dataRow_wd [] (stopAtTotalWeight dataRows)"

text \<open>
  The insertion of the CATEGORY column into a header that is not empty.  The slice
  expression \<^verbatim>\<open>header[:5]\<close> panics when the header has fewer than five columns (its
  capacity is its length).
\<close>

definition withCategoryColumn :: "string list \<Rightarrow> goPanic + string list" where
  "withCategoryColumn header =
     (if length header > 0 then
        (if length header < 5 then Inl SliceBoundsOutOfRange
         else Inr (take 5 header @ [''CATEGORY''] @ drop 5 header))
      else Inr header)"

subsection \<open>\<^verbatim>\<open>extractTable\<close>\<close>

definition padRow :: "nat \<Rightarrow> string list \<Rightarrow> string list" where
  "padRow n row = map (cellAt row) [0..<n]"

text \<open>Everything \<^verbatim>\<open>extractTable\<close> does before its last loop ("Pad all rows to header
  length"): the header and the data rows that the padding loop receives.\<close>

definition tableBeforePadding ::
  "(string list \<Rightarrow> string list) \<Rightarrow> (string list list \<Rightarrow> string list list) \<Rightarrow>
   TextEntity list \<Rightarrow> string \<Rightarrow> goPanic + (string list \<times> string list list)" where
  "tableBeforePadding validate processMaterials textEntities tableTitle =
     (case findTitle textEntities tableTitle of
        None \<Rightarrow> Inr ([], [])
      | Some titleEntity \<Rightarrow>
         (let filteredEntities = filterEntities textEntities tableTitle titleEntity;
              tableRows = tableRowsOf filteredEntities;
              header0 = fst (headerAndData tableTitle tableRows);
              dataRows0 = snd (headerAndData tableTitle tableRows);
              isMaterials = contains (toUpper tableTitle) ''ERECTION MATERIALS'';
              dataRows1 = (if isMaterials then processMaterials dataRows0 else dataRows0)
          in case (if isMaterials then withCategoryColumn header0 else Inr header0) of
               Inl e \<Rightarrow> Inl e
             | Inr header \<Rightarrow>
                 let dataRows2 =
                       (if toLower tableTitle = ''cut pipe length''
                        then map validate (filter (\<lambda>row. contains (concat row) ''<'') dataRows1)
                        else dataRows1);
                     dataRows3 =
                       (if contains (toUpper tableTitle) ''CUT PIPE LENGTH''
                        then takeWhile
                               (\<lambda>row. \<not> list_all (\<lambda>cell. trimSpace cell = []) row) dataRows2
                        else dataRows2)
                 in Inr (header, dataRows3)))"

definition extractTableCore ::
  "(string list \<Rightarrow> string list) \<Rightarrow> (string list list \<Rightarrow> string list list) \<Rightarrow>
   TextEntity list \<Rightarrow> string \<Rightarrow> goPanic + (string list \<times> string list list)" where
  "extractTableCore validate processMaterials textEntities tableTitle =
     (case tableBeforePadding validate processMaterials textEntities tableTitle of
        Inl e \<Rightarrow> Inl e
      | Inr (header, dataRows) \<Rightarrow> Inr (header, map (padRow (length header)) dataRows))"

text \<open>\<^verbatim>\<open>extractTable\<close> of the second copy (table\_extraction.go).\<close>

definition extractTable ::
  "(string \<Rightarrow> real option) \<Rightarrow> TextEntity list \<Rightarrow> string \<Rightarrow>
   goPanic + (string list \<times> string list list)" where
  "extractTable pf textEntities tableTitle =
     extractTableCore (validateAndCorrectCutLengthRow pf) (processErectionMaterialsTable pf)
       textEntities tableTitle"

text \<open>\<^verbatim>\<open>extractTable\<close> of the first copy (the weld detector).\<close>

definition validateAndCorrectCutLengthRow_wd :: "string list \<Rightarrow> string list" where
  "validateAndCorrectCutLengthRow_wd row = row"

definition extractTable_wd ::
  "TextEntity list \<Rightarrow> string \<Rightarrow> goPanic + (string list \<times> string list list)" where
  "extractTable_wd textEntities tableTitle =
     extractTableCore validateAndCorrectCutLengthRow_wd processErectionMaterialsTable_wd
       textEntities tableTitle"

section \<open>Notions used to state the properties\<close>

text \<open>
  The four output columns that the filling loop writes for one piece group, as the
  description of the row format states them: the piece number, the first two numbers
  and the first remark, each empty when absent.
\<close>

definition pieceColumns :: "pieceGroup \<Rightarrow> string list" where
  "pieceColumns g =
     [piece g,
      (if 0 < length (numbers g) then numbers g ! 0 else []),
      (if 1 < length (numbers g) then numbers g ! 1 else []),
      (if remarks g = [] then [] else hd (remarks g))]"


section \<open>Concrete inputs used in the examples\<close>



definition textAt :: "string \<Rightarrow> real \<Rightarrow> real \<Rightarrow> TextEntity" where
  "textAt c px py =
     \<lparr>Content = c, X = px, Y = py, Height = 2.5, EntityType = ''TEXT'', Layer = ''0''\<rparr>"

definition drawingOutsideRegion :: "TextEntity list" where
  "drawingOutsideRegion =
     [textAt ''ERECTION MATERIALS'' 100 100, textAt ''1ABC23BR456'' 0 200]"

definition drawingInsideRegion :: "TextEntity list" where
  "drawingInsideRegion =
     [textAt ''ERECTION MATERIALS'' 100 100, textAt ''No. 1ABC23BR456 rev'' 150 20,
      textAt ''2XYZ11BR001'' 120 5]"


definition materialsCsv :: "string list list" where
  "materialsCsv =
     [[''PT NO'', ''DESCRIPTION'', ''N.S.'', ''QTY'', ''WEIGHT''],
      [''1'', ''PIPE'', ''25'', ''3x2m'', ''4.1''],
      [''2'', ''ELBOW'', ''3'', ''0.9'', []]]"

text \<open>A materials table whose only data row has seven fragments.\<close>

definition wideRowDrawing :: "TextEntity list" where
  "wideRowDrawing =
     [textAt ''ERECTION MATERIALS'' 0 100,
      textAt ''PT'' 0 99, textAt ''DESCRIPTION'' 10 99, textAt ''N.S.'' 20 99,
      textAt ''QTY'' 30 99, textAt ''WEIGHT'' 40 99,
      textAt ''NO'' 0 98,
      textAt ''1'' 0 97, textAt ''PIPE'' 10 97, textAt ''SCH'' 14 97, textAt ''40'' 17 97,
      textAt ''25'' 20 97, textAt ''2.4M'' 30 97, textAt ''3.1'' 40 97]"

text \<open>Two fragments whose Y differ by 0.02.\<close>

definition nearbyFragments :: "TextEntity list" where
  "nearbyFragments = [textAt ''a'' 0 0.04, textAt ''b'' 1 0.06]"

text \<open>A drawing of two sheets, each with its own materials table; the fragments of the
  lower sheet come first in the file.\<close>

definition sheetTwoFragments :: "TextEntity list" where
  "sheetTwoFragments =
     [textAt ''ERECTION MATERIALS'' 0 50,
      textAt ''PT'' 0 49, textAt ''DESCRIPTION'' 10 49, textAt ''N.S.'' 20 49,
      textAt ''QTY'' 30 49, textAt ''WEIGHT'' 40 49,
      textAt ''NO'' 0 48,
      textAt ''1'' 0 47, textAt ''ELBOW'' 10 47, textAt ''25'' 20 47,
      textAt ''2'' 30 47, textAt ''0.9'' 40 47]"

definition sheetOneFragments :: "TextEntity list" where
  "sheetOneFragments =
     [textAt ''ERECTION MATERIALS'' 0 150,
      textAt ''PT'' 0 149, textAt ''DESCRIPTION'' 10 149, textAt ''N.S.'' 20 149,
      textAt ''QTY'' 30 149, textAt ''WEIGHT'' 40 149,
      textAt ''NO'' 0 148,
      textAt ''1'' 0 147, textAt ''PIPE'' 10 147, textAt ''25'' 20 147,
      textAt ''2.4M'' 30 147, textAt ''3.1'' 40 147]"

definition twoSheetDrawing :: "TextEntity list" where
  "twoSheetDrawing = sheetTwoFragments @ sheetOneFragments"


section \<open>Properties of the weld detector\<close>

lemma dedupLoop_spaced_id: "spaced unique xs \<Longrightarrow> dedupLoop unique xs = unique @ xs"
  by (induction xs arbitrary: unique) auto

lemma dedupLoop_yields_spaced:
  "\<exists>kept. dedupLoop unique xs = unique @ kept \<and> spaced unique kept"
proof (induction xs arbitrary: unique)
  case Nil
  have "dedupLoop unique [] = unique @ [] \<and> spaced unique []" by simp
  then show ?case by blast
next
  case (Cons symbol rest)
  show ?case
  proof (cases "isDuplicate symbol unique")
    case True
    with Cons.IH [of unique] show ?thesis by simp
  next
    case False
    from Cons.IH [of "unique @ [symbol]"] obtain kept
      where k: "dedupLoop (unique @ [symbol]) rest = (unique @ [symbol]) @ kept"
        and s: "spaced (unique @ [symbol]) kept" by blast
    from False k s
    have "dedupLoop unique (symbol # rest) = unique @ (symbol # kept)
          \<and> spaced unique (symbol # kept)" by simp
    then show ?thesis by blast
  qed
qed

lemma dedupLoop_subset: "set (dedupLoop unique xs) \<subseteq> set unique \<union> set xs"
proof (induction xs arbitrary: unique)
  case Nil
  then show ?case by simp
next
  case (Cons symbol rest)
  from Cons.IH [of unique] Cons.IH [of "unique @ [symbol]"] show ?case by auto
qed

lemma removeDuplicateSymbols_subset: "set (removeDuplicateSymbols xs) \<subseteq> set xs"
  using dedupLoop_subset [of "[]" xs] by (simp add: removeDuplicateSymbols_def)

text \<open>
  C9.  Weld-candidate deduplication is idempotent: for every list of weld symbols,
  applying \<open>removeDuplicateSymbols\<close> to its own output returns that output unchanged.
\<close>

theorem removeDuplicateSymbols_idempotent:
  "removeDuplicateSymbols (removeDuplicateSymbols symbols) = removeDuplicateSymbols symbols"
proof (cases "length symbols \<le> 1")
  case True
  then show ?thesis by (simp add: removeDuplicateSymbols_def)
next
  case False
  from dedupLoop_yields_spaced [of "[]" symbols] obtain kept
    where k: "dedupLoop [] symbols = kept" and s: "spaced [] kept" by auto
  from s have "dedupLoop [] kept = kept" using dedupLoop_spaced_id [of "[]" kept] by simp
  with False k show ?thesis by (simp add: removeDuplicateSymbols_def)
qed

lemma distance_nonneg: "0 \<le> distance x1 y1 x2 y2"
  by (simp add: distance_def Let_def)

lemma lengthsMatch_pos: "lengthsMatch len1 len2 \<Longrightarrow> 0 < len1 \<and> 0 < len2"
  by (auto simp: lengthsMatch_def weldLengthPairs_def Let_def abs_le_iff)

lemma lengthsMatch_sym: "lengthsMatch len1 len2 = lengthsMatch len2 len1"
  by (auto simp: lengthsMatch_def weldLengthPairs_def Let_def)

text \<open>
  What the loop body does with a pair that passed the length test and the crossing test,
  written with names for the two distances and the two tolerances.
\<close>

lemma weldCandidate_outcome:
  assumes lm: "lengthsMatch (Length seg1) (Length seg2)"
      and li: "linesIntersect seg1 seg2 = Some (ix, iy)"
      and d1: "d1 = distance ix iy ((X1 seg1 + X2 seg1) / 2) ((Y1 seg1 + Y2 seg1) / 2)"
      and d2: "d2 = distance ix iy ((X1 seg2 + X2 seg2) / 2) ((Y1 seg2 + Y2 seg2) / 2)"
      and t1: "t1 = Length seg1 * 0.3"
      and t2: "t2 = Length seg2 * 0.3"
  shows "(case weldCandidate seg1 seg2 of
            None \<Rightarrow> d1 > t1 \<or> d2 > t2
          | Some w \<Rightarrow>
              d1 \<le> t1 \<and> d2 \<le> t2 \<and>
              CenterX w = ix \<and> CenterY w = iy \<and>
              Confidence w = 1 - max d1 d2 / max t1 t2 \<and>
              0 \<le> Confidence w \<and> Confidence w \<le> 1 \<and>
              (Confidence w = 1 \<longleftrightarrow> d1 = 0 \<and> d2 = 0))"
proof -
  have d1n: "0 \<le> d1" and d2n: "0 \<le> d2" by (simp_all add: d1 d2 distance_nonneg)
  from lengthsMatch_pos [OF lm] have t1p: "0 < t1" and t2p: "0 < t2"
    by (simp_all add: t1 t2)
  show ?thesis
  proof (cases "d1 > t1 \<or> d2 > t2")
    case True
    with lm li have "weldCandidate seg1 seg2 = None"
      by (simp add: weldCandidate_def Let_def d1 d2 t1 t2)
    with True show ?thesis by simp
  next
    case False
    then have le: "d1 \<le> t1" "d2 \<le> t2" by simp_all
    define w where "w = \<lparr>CenterX = ix, CenterY = iy, Length1 = Length seg1,
      Length2 = Length seg2, SymLayer = SegLayer seg1,
      Confidence = 1 - max d1 d2 / max t1 t2\<rparr>"
    from lm li False have wc: "weldCandidate seg1 seg2 = Some w"
      by (simp add: weldCandidate_def Let_def d1 d2 t1 t2 w_def)
    have mt: "0 < max t1 t2" using t1p by simp
    have md: "0 \<le> max d1 d2" using d1n by simp
    have mle: "max d1 d2 \<le> max t1 t2" using le by auto
    have q0: "max d1 d2 / max t1 t2 \<le> 1" using mle mt by simp
    have q1: "0 \<le> max d1 d2 / max t1 t2" using md mt by simp
    have c: "Confidence w = 1 - max d1 d2 / max t1 t2" by (simp add: w_def)
    have one: "(Confidence w = 1) = (d1 = 0 \<and> d2 = 0)"
      using mt d1n d2n unfolding c by auto
    have cx: "CenterX w = ix" "CenterY w = iy" by (simp_all add: w_def)
    from q0 q1 have rng: "0 \<le> Confidence w" "Confidence w \<le> 1" unfolding c by simp_all
    from le cx c rng one show ?thesis unfolding wc by simp
  qed
qed



text \<open>The same bounds for every symbol the detector returns.\<close>

lemma candidatePairs_confidence:
  "w \<in> set (candidatePairs segs) \<Longrightarrow> 0 \<le> Confidence w \<and> Confidence w \<le> 1"
proof (induction segs)
  case Nil
  then show ?case by simp
next
  case (Cons seg1 rest)
  show ?case
  proof (cases "w \<in> set (candidatePairs rest)")
    case True
    then show ?thesis by (rule Cons.IH)
  next
    case False
    with Cons.prems obtain seg2 where wc: "weldCandidate seg1 seg2 = Some w"
      by (auto simp: List.map_filter_def)
    then have lm: "lengthsMatch (Length seg1) (Length seg2)"
      by (auto simp: weldCandidate_def split: if_splits)
    from wc obtain ix iy where li: "linesIntersect seg1 seg2 = Some (ix, iy)"
      by (auto simp: weldCandidate_def split: if_splits option.splits)
    from weldCandidate_outcome [OF lm li refl refl refl refl] wc show ?thesis
      by simp
  qed
qed

lemma detectWeldSymbols_confidence:
  assumes "w \<in> set (detectWeldSymbols segs)"
  shows "0 \<le> Confidence w \<and> Confidence w \<le> 1"
proof -
  from assms have "w \<in> set (removeDuplicateSymbols (candidatePairs segs))"
    by (simp add: detectWeldSymbols_def split: if_splits)
  with removeDuplicateSymbols_subset have "w \<in> set (candidatePairs segs)" by blast
  then show ?thesis by (rule candidatePairs_confidence)
qed

section \<open>Properties of cut-length row validation\<close>

lemma placeGroup_block:
  "length h = b \<Longrightarrow>
   placeGroup b g (h @ [[], [], [], []] @ t) = h @ pieceColumns g @ t"
  by (cases "numbers g"; cases "tl (numbers g)"; cases "remarks g")
     (simp_all add: placeGroup_def pieceColumns_def Let_def list_update_append nth_Cons'
        split: list.splits)

lemma length_pieceGroups: "length (pieceGroups pf row ps) = length ps"
  by (induction ps) (simp_all add: Let_def)

lemma collectCells_numbers:
  "numbers (collectCells pf g cells) =
     numbers g @ filter (isNumber pf) (filter (\<lambda>c. c \<noteq> []) (map trimSpace cells))"
  by (induction cells arbitrary: g) (simp_all add: Let_def)

lemma collectCells_remarks:
  "remarks (collectCells pf g cells) =
     remarks g @ filter (\<lambda>c. \<not> isNumber pf c \<and> isTextRemark pf c)
                   (filter (\<lambda>c. c \<noteq> []) (map trimSpace cells))"
  by (induction cells arbitrary: g) (simp_all add: Let_def)

lemma collectCells_piece: "piece (collectCells pf g cells) = piece g"
  by (induction cells arbitrary: g) (simp_all add: Let_def)

text \<open>A row with at least one piece number becomes the column blocks of its first two
  piece groups.\<close>

lemma validateAndCorrectCutLengthRow_blocks:
  assumes "findPieces 0 row \<noteq> []"
  shows "validateAndCorrectCutLengthRow pf row =
          (case pieceGroups pf row (findPieces 0 row) of
             [] \<Rightarrow> []
           | [g] \<Rightarrow> pieceColumns g @ replicate 4 []
           | g0 # g1 # _ \<Rightarrow> pieceColumns g0 @ pieceColumns g1)"
proof -
  from assms have ne: "row \<noteq> []" by (cases row) auto
  have r8: "replicate 8 ([]::string) = [] @ [[], [], [], []] @ [[], [], [], []]"
    by (simp add: numeral_eq_Suc)
  show ?thesis
  proof (cases "pieceGroups pf row (findPieces 0 row)")
    case Nil
    with assms length_pieceGroups [of pf row "findPieces 0 row"] show ?thesis by simp
  next
    case (Cons g0 gs)
    note c0 = this
    show ?thesis
    proof (cases gs)
      case Nil
      with c0 ne assms show ?thesis
        using placeGroup_block [of "[]" 0 g0 "[[], [], [], []]"]
        by (simp add: validateAndCorrectCutLengthRow_def Let_def r8 numeral_eq_Suc)
    next
      case (Cons g1 gs')
      have "placeGroup 4 g1 (placeGroup 0 g0 (replicate 8 [])) = pieceColumns g0 @ pieceColumns g1"
        using placeGroup_block [of "[]" 0 g0 "[[], [], [], []]"]
              placeGroup_block [of "pieceColumns g0" 4 g1 "[]"]
        by (simp add: r8 pieceColumns_def)
      with c0 Cons ne assms show ?thesis
        by (simp add: validateAndCorrectCutLengthRow_def Let_def)
    qed
  qed
qed

lemma length_pieceColumns: "length (pieceColumns g) = 4"
  by (simp add: pieceColumns_def)

lemma pieceColumns_block_nth:
  assumes out: "out = h @ pieceColumns g @ t" and h: "length h = 4 * k"
  shows "out ! (4 * k) = piece g"
    and "n < min 2 (length (numbers g)) \<Longrightarrow> out ! (4 * k + 1 + n) = numbers g ! n"
    and "remarks g \<noteq> [] \<Longrightarrow> out ! (k * 4 + 3) = hd (remarks g)"
proof -
  have at: "\<And>i. out ! (4 * k + i) = (pieceColumns g @ t) ! i"
    using out h by (simp add: nth_append)
  show "out ! (4 * k) = piece g"
    using at [of 0] by (simp add: pieceColumns_def)
  show "out ! (k * 4 + 3) = hd (remarks g)" if "remarks g \<noteq> []"
    using at [of 3] that by (simp add: pieceColumns_def mult.commute)
  show "out ! (4 * k + 1 + n) = numbers g ! n" if "n < min 2 (length (numbers g))"
  proof -
    from that have "(n = 0 \<and> 0 < length (numbers g)) \<or> (n = 1 \<and> 1 < length (numbers g))"
      by auto
    then show ?thesis
      using at [of 1] at [of 2] by (auto simp: pieceColumns_def)
  qed
qed

lemma validateAndCorrectCutLengthRow_columns:
  assumes ps: "findPieces 0 row \<noteq> []"
      and k: "k < min 2 (length (pieceGroups pf row (findPieces 0 row)))"
  shows "length (validateAndCorrectCutLengthRow pf row) = 8 \<and>
         validateAndCorrectCutLengthRow pf row ! (4 * k)
           = piece (pieceGroups pf row (findPieces 0 row) ! k) \<and>
         (\<forall>n < min 2 (length (numbers (pieceGroups pf row (findPieces 0 row) ! k))).
            validateAndCorrectCutLengthRow pf row ! (4 * k + 1 + n)
              = numbers (pieceGroups pf row (findPieces 0 row) ! k) ! n) \<and>
         (remarks (pieceGroups pf row (findPieces 0 row) ! k) \<noteq> [] \<longrightarrow>
            validateAndCorrectCutLengthRow pf row ! (k * 4 + 3)
              = hd (remarks (pieceGroups pf row (findPieces 0 row) ! k)))"
proof -
  define out where "out = validateAndCorrectCutLengthRow pf row"
  define groups where "groups = pieceGroups pf row (findPieces 0 row)"
  note b = validateAndCorrectCutLengthRow_blocks [OF ps, of pf, folded out_def groups_def]
  from k have k01: "k = 0 \<or> k = 1" by auto
  have "\<exists>h t. out = h @ pieceColumns (groups ! k) @ t \<and> length h = 4 * k \<and> length out = 8"
  proof (cases groups)
    case Nil
    with k show ?thesis by (simp add: groups_def)
  next
    case (Cons g0 gs)
    note c0 = this
    show ?thesis
    proof (cases gs)
      case Nil
      with c0 k have k0: "k = 0" by (simp add: groups_def)
      from b c0 Nil have "out = [] @ pieceColumns g0 @ replicate 4 []" by simp
      with k0 c0 show ?thesis by (simp add: length_pieceColumns)
    next
      case (Cons g1 gs')
      from b c0 Cons have o: "out = pieceColumns g0 @ pieceColumns g1" by simp
      from k01 show ?thesis
      proof
        assume "k = 0"
        with o c0 have "out = [] @ pieceColumns (groups ! k) @ pieceColumns g1" by simp
        with \<open>k = 0\<close> o show ?thesis by (simp add: length_pieceColumns)
      next
        assume "k = 1"
        with o c0 Cons have "out = pieceColumns g0 @ pieceColumns (groups ! k) @ []" by simp
        moreover have "length (pieceColumns g0) = 4 * k"
          using \<open>k = 1\<close> by (simp add: length_pieceColumns)
        moreover have "length out = 8" using o by (simp add: length_pieceColumns)
        ultimately show ?thesis by blast
      qed
    qed
  qed
  then obtain h t where o: "out = h @ pieceColumns (groups ! k) @ t"
    and h: "length h = 4 * k" and l: "length out = 8" by blast
  from pieceColumns_block_nth [OF o h] l show ?thesis
    unfolding out_def groups_def by blast
qed

text \<open>
  C7.  Cut-length row validation on the row ["<5>", "120", "OK"] (where the number parser
  accepts "120" and rejects "OK") detects exactly one piece ("<5>"), captures the numeric
  "120" and the remark "OK", and returns the 8-column row
  ["<5>", "120", "", "OK", "", "", "", ""]; in general, for a row with at least one piece
  number, each of the first two pieces has its number at column 4 * pieceIndex, up to two
  numeric values at the next two columns, and its first remark at column
  pieceIndex * 4 + 3.
\<close>

theorem validateAndCorrectCutLengthRow_layout:
  assumes "pf ''120'' \<noteq> None" and "pf ''OK'' = None"
  shows "findPieces 0 [''<5>'', ''120'', ''OK''] = [(0, ''<5>'')] \<and>
         pieceGroups pf [''<5>'', ''120'', ''OK''] (findPieces 0 [''<5>'', ''120'', ''OK''])
           = [\<lparr>piece = ''<5>'', numbers = [''120''], remarks = [''OK'']\<rparr>] \<and>
         validateAndCorrectCutLengthRow pf [''<5>'', ''120'', ''OK'']
           = [''<5>'', ''120'', [], ''OK'', [], [], [], []] \<and>
         (\<forall>row k. findPieces 0 row \<noteq> [] \<and>
                  k < min 2 (length (pieceGroups pf row (findPieces 0 row))) \<longrightarrow>
            length (validateAndCorrectCutLengthRow pf row) = 8 \<and>
            validateAndCorrectCutLengthRow pf row ! (4 * k)
              = piece (pieceGroups pf row (findPieces 0 row) ! k) \<and>
            (\<forall>n < min 2 (length (numbers (pieceGroups pf row (findPieces 0 row) ! k))).
               validateAndCorrectCutLengthRow pf row ! (4 * k + 1 + n)
                 = numbers (pieceGroups pf row (findPieces 0 row) ! k) ! n) \<and>
            (remarks (pieceGroups pf row (findPieces 0 row) ! k) \<noteq> [] \<longrightarrow>
               validateAndCorrectCutLengthRow pf row ! (k * 4 + 3)
                 = hd (remarks (pieceGroups pf row (findPieces 0 row) ! k))))"
proof -
  have p: "findPieces 0 [''<5>'', ''120'', ''OK''] = [(0, ''<5>'')]"
    by (simp add: isPieceNumber_def pieceNumberPattern_def trimSpace_def isSpace_def
        isDigit_def Let_def)
  from assms have g: "pieceGroups pf [''<5>'', ''120'', ''OK''] [(0, ''<5>'')]
           = [\<lparr>piece = ''<5>'', numbers = [''120''], remarks = [''OK'']\<rparr>]"
    by (simp add: Let_def isNumber_def isTextRemark_def isPieceNumber_def
        pieceNumberPattern_def trimSpace_def isSpace_def)
  have v: "validateAndCorrectCutLengthRow pf [''<5>'', ''120'', ''OK'']
           = [''<5>'', ''120'', [], ''OK'', [], [], [], []]"
  proof -
    have ne: "findPieces 0 [''<5>'', ''120'', ''OK''] \<noteq> []" by (simp only: p) simp
    have "validateAndCorrectCutLengthRow pf [''<5>'', ''120'', ''OK'']
            = pieceColumns \<lparr>piece = ''<5>'', numbers = [''120''], remarks = [''OK'']\<rparr>
                @ replicate 4 []"
      using validateAndCorrectCutLengthRow_blocks [OF ne, of pf] by (simp only: p g list.case)
    then show ?thesis by (simp add: pieceColumns_def numeral_eq_Suc)
  qed
  have gen: "\<forall>row k. findPieces 0 row \<noteq> [] \<and>
                  k < min 2 (length (pieceGroups pf row (findPieces 0 row))) \<longrightarrow>
            length (validateAndCorrectCutLengthRow pf row) = 8 \<and>
            validateAndCorrectCutLengthRow pf row ! (4 * k)
              = piece (pieceGroups pf row (findPieces 0 row) ! k) \<and>
            (\<forall>n < min 2 (length (numbers (pieceGroups pf row (findPieces 0 row) ! k))).
               validateAndCorrectCutLengthRow pf row ! (4 * k + 1 + n)
                 = numbers (pieceGroups pf row (findPieces 0 row) ! k) ! n) \<and>
            (remarks (pieceGroups pf row (findPieces 0 row) ! k) \<noteq> [] \<longrightarrow>
               validateAndCorrectCutLengthRow pf row ! (k * 4 + 3)
                 = hd (remarks (pieceGroups pf row (findPieces 0 row) ! k)))"
    using validateAndCorrectCutLengthRow_columns [of _ _ pf] by blast
  show ?thesis
    apply (intro conjI)
       apply (rule p)
      apply (simp only: p g)
     apply (rule v)
    apply (rule gen)
    done
qed

theorem validateAndCorrectCutLengthRow_layout_witness:
  "parseDecimal ''120'' \<noteq> None \<and> parseDecimal ''OK'' = None \<and>
   validateAndCorrectCutLengthRow parseDecimal [''<5>'', ''120'', ''OK'']
     = [''<5>'', ''120'', [], ''OK'', [], [], [], []]"
proof -
  have a: "parseDecimal ''120'' \<noteq> None"
    by (simp add: parseDecimal_def parseUnsigned_def isDigit_def Let_def)
  have b: "parseDecimal ''OK'' = None"
    by (simp add: parseDecimal_def parseUnsigned_def isDigit_def Let_def)
  from validateAndCorrectCutLengthRow_layout [OF a b] a b show ?thesis by blast
qed

section \<open>Properties of the drawing-number locator\<close>

lemma set_kksCandidates:
  "c \<in> set (kksCandidates erection es) \<longleftrightarrow>
     (\<exists>e \<in> set es. kksFindString (Content e) \<noteq> [] \<and>
        (case erection of Some a \<Rightarrow> X e \<ge> X a \<and> Y e \<le> Y a | None \<Rightarrow> True) \<and>
        c = \<lparr>candValue = kksFindString (Content e), candX = X e, candY = Y e,
             candAbsY = absFloat (Y e)\<rparr>)"
  by (induction es) (auto simp: Let_def split: option.splits)

lemma hd_sort_key_least:
  fixes f :: "'a \<Rightarrow> real"
  assumes "xs \<noteq> []"
  shows "hd (sort_key f xs) \<in> set xs \<and> (\<forall>x \<in> set xs. f (hd (sort_key f xs)) \<le> f x)"
proof -
  obtain y ys where ys: "sort_key f xs = y # ys"
    using assms by (cases "sort_key f xs") (auto dest: arg_cong [where f = length])
  have "sorted (map f (y # ys))" using sorted_sort_key [of f xs] ys by simp
  then have le: "\<forall>x \<in> set (y # ys). f y \<le> f x" by auto
  have "set (y # ys) = set xs" using set_sort [of f xs] ys by simp
  with le ys show ?thesis by auto
qed

text \<open>
  C5 (as the code has it).  When a materials-table anchor exists, the candidates are the
  fragments matching the drawing-number pattern at or right of and at or below the
  anchor; when there is no anchor, every matching fragment is a candidate.  If there is a
  candidate, the match of a candidate with smallest absolute Y is returned.  If there is
  none, also when an anchor exists and no match lies in its region, the locator goes on
  with the "Drawing-No." label-adjacency scan; it makes no unfiltered scan in between.
\<close>

theorem findDrawingNo_candidates_then_label:
  "let erection = erectionAnchor es;
       candidates = kksCandidates erection es
   in (\<forall>c. c \<in> set candidates \<longleftrightarrow>
            (\<exists>e \<in> set es. kksFindString (Content e) \<noteq> [] \<and>
               (case erection of Some a \<Rightarrow> X e \<ge> X a \<and> Y e \<le> Y a | None \<Rightarrow> True) \<and>
               c = \<lparr>candValue = kksFindString (Content e), candX = X e, candY = Y e,
                    candAbsY = absFloat (Y e)\<rparr>)) \<and>
      (candidates \<noteq> [] \<longrightarrow>
         (\<exists>c \<in> set candidates. findDrawingNo es = candValue c \<and>
            (\<forall>c' \<in> set candidates. candAbsY c \<le> candAbsY c'))) \<and>
      (candidates = [] \<longrightarrow> findDrawingNo es = drawingNoLabelScan es)"
proof -
  define erection where "erection = erectionAnchor es"
  define candidates where "candidates = kksCandidates erection es"
  have a: "\<forall>c. c \<in> set candidates \<longleftrightarrow>
            (\<exists>e \<in> set es. kksFindString (Content e) \<noteq> [] \<and>
               (case erection of Some a \<Rightarrow> X e \<ge> X a \<and> Y e \<le> Y a | None \<Rightarrow> True) \<and>
               c = \<lparr>candValue = kksFindString (Content e), candX = X e, candY = Y e,
                    candAbsY = absFloat (Y e)\<rparr>)"
    unfolding candidates_def using set_kksCandidates [of _ erection es] by blast
  have b: "candidates \<noteq> [] \<longrightarrow>
         (\<exists>c \<in> set candidates. findDrawingNo es = candValue c \<and>
            (\<forall>c' \<in> set candidates. candAbsY c \<le> candAbsY c'))"
  proof
    assume ne: "candidates \<noteq> []"
    then have "findDrawingNo es = candValue (hd (sort_key candAbsY candidates))"
      by (simp add: findDrawingNo_def Let_def candidates_def erection_def)
    with hd_sort_key_least [OF ne, of candAbsY] show
      "\<exists>c \<in> set candidates. findDrawingNo es = candValue c \<and>
            (\<forall>c' \<in> set candidates. candAbsY c \<le> candAbsY c')" by blast
  qed
  have c: "candidates = [] \<longrightarrow> findDrawingNo es = drawingNoLabelScan es"
    by (simp add: findDrawingNo_def Let_def candidates_def erection_def)
  from a b c show ?thesis
    unfolding Let_def candidates_def erection_def by blast
qed

lemmas locator_eval =
  isDigit_def isUpperLetter_def isLowerLetter_def isWordChar_def kksAt_def kksFindString_def
  toUpper_def toUpperChar_def textAt_def absFloat_def erectionAnchor_def

theorem findDrawingNo_candidates_then_label_witness:
  "kksCandidates (erectionAnchor drawingInsideRegion) drawingInsideRegion \<noteq> [] \<and>
   findDrawingNo drawingInsideRegion = ''2XYZ11BR001'' \<and>
   (\<exists>c \<in> set (kksCandidates (erectionAnchor drawingInsideRegion) drawingInsideRegion).
      findDrawingNo drawingInsideRegion = candValue c \<and>
      (\<forall>c' \<in> set (kksCandidates (erectionAnchor drawingInsideRegion) drawingInsideRegion).
         candAbsY c \<le> candAbsY c'))"
proof -
  have ne: "kksCandidates (erectionAnchor drawingInsideRegion) drawingInsideRegion \<noteq> []"
    by (simp add: drawingInsideRegion_def locator_eval Let_def)
  have v: "findDrawingNo drawingInsideRegion = ''2XYZ11BR001''"
    by (simp add: findDrawingNo_def drawingInsideRegion_def locator_eval Let_def)
  from findDrawingNo_candidates_then_label [of drawingInsideRegion] ne v
  show ?thesis unfolding Let_def by blast
qed

text \<open>
  C5 as stated fails: in \<open>drawingOutsideRegion\<close> an anchor exists, the only match of the
  pattern lies left of and above it, so no candidate is in the region; the unfiltered
  scan would find "1ABC23BR456", but the locator returns the empty string.
\<close>

theorem findDrawingNo_no_unfiltered_fallback:
  "erectionAnchor drawingOutsideRegion = Some (textAt ''ERECTION MATERIALS'' 100 100) \<and>
   kksCandidates (erectionAnchor drawingOutsideRegion) drawingOutsideRegion = [] \<and>
   map candValue (kksCandidates None drawingOutsideRegion) = [''1ABC23BR456''] \<and>
   findDrawingNo drawingOutsideRegion = []"
  by (simp add: findDrawingNo_def drawingOutsideRegion_def locator_eval Let_def)

section \<open>Properties of the CSV post-processing pass\<close>

lemmas csv_eval =
  fixMissingNSColumns_def shiftRow_def cleanQtyCell_def trimSpace_def isSpace_def
  hasSuffix_def trimSuffix_def toUpper_def toUpperChar_def Let_def

text \<open>
  The shift of a row whose length covers the four columns: it happens exactly when the
  trimmed PT NO cell is non-empty and the trimmed WEIGHT cell is empty, it moves QTY to
  WEIGHT and N.S. to QTY, empties N.S. and leaves every other cell alone.
\<close>

lemma shiftRow_position_based:
  assumes len: "ptNoIdx < length row" "nsIdx < length row" "qtyIdx < length row"
               "weightIdx < length row"
  shows "shiftRow ptNoIdx nsIdx qtyIdx weightIdx row =
           (if trimSpace (row ! ptNoIdx) \<noteq> [] \<and> trimSpace (row ! weightIdx) = []
            then Inr (row[weightIdx := row ! qtyIdx, qtyIdx := row ! nsIdx, nsIdx := []], True)
            else Inr (row, False))"
proof -
  from len have pad: "row @ replicate (weightIdx + 1 - length row) [] = row" by simp
  from len show ?thesis by (simp add: shiftRow_def Let_def pad)
qed

lemma shifted_cells:
  assumes len: "nsIdx < length row" "qtyIdx < length row" "weightIdx < length row"
      and dist: "nsIdx \<noteq> qtyIdx" "nsIdx \<noteq> weightIdx" "qtyIdx \<noteq> weightIdx"
      and r: "row' = row[weightIdx := row ! qtyIdx, qtyIdx := row ! nsIdx, nsIdx := []]"
  shows "row' ! weightIdx = row ! qtyIdx" and "row' ! qtyIdx = row ! nsIdx"
    and "row' ! nsIdx = []"
    and "i \<noteq> weightIdx \<Longrightarrow> i \<noteq> qtyIdx \<Longrightarrow> i \<noteq> nsIdx \<Longrightarrow> row' ! i = row ! i"
  using len dist by (simp_all add: r)

lemma cleanQtyCell_other_cells:
  "length (fst (cleanQtyCell qtyIdx row)) = length row \<and>
   (\<forall>i. i \<noteq> qtyIdx \<longrightarrow> fst (cleanQtyCell qtyIdx row) ! i = row ! i)"
  by (simp add: cleanQtyCell_def Let_def)

text \<open>
  C10 (the code at a failing input).  In \<open>materialsCsv\<close> the first row has a WEIGHT and a
  QTY "3x2m": no shift, and removing the suffix should leave "3x2"; the pass writes
  "3X2", because it strips the suffix from the upper-cased text.  The second row has a
  PT NO and an empty WEIGHT: it is shifted, as the claim says.  \<open>cleanQtyValue\<close>, the
  sibling that strips the same suffix, keeps the case of the rest.
\<close>

theorem fixMissingNSColumns_uppercases_quantity:
  "fixMissingNSColumns materialsCsv =
     Inr [[''PT NO'', ''DESCRIPTION'', ''N.S.'', ''QTY'', ''WEIGHT''],
          [''1'', ''PIPE'', ''25'', ''3X2'', ''4.1''],
          [''2'', ''ELBOW'', [], ''3'', ''0.9'']] \<and>
   cleanQtyValue ''3x2m'' = ''3x2''"
  by (simp add: csv_eval materialsCsv_def cleanQtyValue_def)

section \<open>Properties of table reconstruction\<close>

lemmas str_eval =
  toUpper_def toUpperChar_def toLower_def toLowerChar_def trimSpace_def isSpace_def
  hasSuffix_def trimSuffix_def isDigit_def

lemmas table_eval =
  extractTableCore_def tableBeforePadding_def findTitle_def filterEntities_def
  tableRowsOf_def yKey_def goRound_def headerAndData_def mergeHeaders_def cellAt_def
  withCategoryColumn_def padRow_def finishDataRow_def rowFlags_def totalRow_def
  textAt_def Let_def upt_conv_Cons

subsection \<open>A title that is absent\<close>

lemma hasPrefix_iff: "hasPrefix s p \<longleftrightarrow> (\<exists>q. s = p @ q)"
  by (induction s p rule: hasPrefix.induct) auto

text \<open>\<open>contains\<close> is the substring test.\<close>

lemma contains_iff: "contains s substr \<longleftrightarrow> (\<exists>p q. s = p @ substr @ q)"
proof (induction s)
  case Nil
  then show ?case by simp
next
  case (Cons c cs)
  show ?case
  proof
    assume "contains (c # cs) substr"
    then consider "hasPrefix (c # cs) substr" | "contains cs substr" by auto
    then show "\<exists>p q. c # cs = p @ substr @ q"
    proof cases
      case 1
      then obtain q where "c # cs = substr @ q" by (auto simp: hasPrefix_iff)
      then have "c # cs = [] @ substr @ q" by simp
      then show ?thesis by blast
    next
      case 2
      with Cons.IH obtain p q where "cs = p @ substr @ q" by blast
      then have "c # cs = (c # p) @ substr @ q" by simp
      then show ?thesis by blast
    qed
  next
    assume "\<exists>p q. c # cs = p @ substr @ q"
    then obtain p q where pq: "c # cs = p @ substr @ q" by blast
    show "contains (c # cs) substr"
    proof (cases p)
      case Nil
      with pq have "hasPrefix (c # cs) substr" by (auto simp: hasPrefix_iff)
      then show ?thesis by simp
    next
      case (Cons a p')
      with pq have "cs = p' @ substr @ q" by simp
      with Cons.IH have "contains cs substr" by blast
      then show ?thesis by simp
    qed
  qed
qed

lemma extractTableCore_title_absent:
  assumes "\<forall>entity \<in> set textEntities.
             \<not> contains (toLower (Content entity)) (toLower tableTitle)"
  shows "extractTableCore validate processMaterials textEntities tableTitle = Inr ([], [])"
proof -
  from assms have "findTitle textEntities tableTitle = None"
    by (simp add: findTitle_def find_None_iff)
  then show ?thesis
    by (simp add: extractTableCore_def tableBeforePadding_def)
qed

text \<open>
  C8.  For every fragment list and every table title that does not occur as a
  case-insensitive substring in any fragment's content, \<open>extractTable\<close> (of either copy)
  returns an empty header and an empty row list, and no panic.
\<close>

theorem extractTable_title_absent:
  assumes "\<forall>entity \<in> set textEntities.
             \<not> (\<exists>p q. toLower (Content entity) = p @ toLower tableTitle @ q)"
  shows "extractTable pf textEntities tableTitle = Inr ([], []) \<and>
         extractTable_wd textEntities tableTitle = Inr ([], [])"
proof -
  from assms have "\<forall>entity \<in> set textEntities.
             \<not> contains (toLower (Content entity)) (toLower tableTitle)"
    by (simp add: contains_iff)
  then show ?thesis
    by (simp add: extractTable_def extractTable_wd_def extractTableCore_title_absent)
qed

theorem extractTable_title_absent_witness:
  "\<not> contains (toLower ''a'') (toLower ''CUT PIPE LENGTH'') \<and>
   \<not> contains (toLower ''b'') (toLower ''CUT PIPE LENGTH'') \<and>
   extractTable parseDecimal nearbyFragments ''CUT PIPE LENGTH'' = Inr ([], []) \<and>
   extractTable_wd nearbyFragments ''CUT PIPE LENGTH'' = Inr ([], [])"
proof -
  have a: "\<not> contains (toLower ''a'') (toLower ''CUT PIPE LENGTH'')"
    by (simp add: str_eval)
  have b: "\<not> contains (toLower ''b'') (toLower ''CUT PIPE LENGTH'')"
    by (simp add: str_eval)
  from a b have h: "\<forall>entity \<in> set nearbyFragments.
      \<not> (\<exists>p q. toLower (Content entity) = p @ toLower ''CUT PIPE LENGTH'' @ q)"
    unfolding contains_iff [symmetric]
    by (simp add: nearbyFragments_def textAt_def)
  from extractTable_title_absent [OF h, of parseDecimal] a b show ?thesis by blast
qed

subsection \<open>Padding\<close>

lemma length_padRow: "length (padRow n row) = n"
  by (simp add: padRow_def)

lemma padRow_take_replicate: "padRow n row = take n row @ replicate (n - length row) []"
  by (rule nth_equalityI) (auto simp: padRow_def cellAt_def nth_append)

lemma extractTableCore_padding:
  assumes "extractTableCore validate processMaterials textEntities tableTitle
             = Inr (header, rows)"
  shows "\<exists>dataRows.
           tableBeforePadding validate processMaterials textEntities tableTitle
             = Inr (header, dataRows) \<and>
           length rows = length dataRows \<and>
           (\<forall>i < length rows.
              length (rows ! i) = length header \<and>
              rows ! i = take (length header) (dataRows ! i)
                           @ replicate (length header - length (dataRows ! i)) [])"
proof (cases "tableBeforePadding validate processMaterials textEntities tableTitle")
  case (Inl e)
  with assms show ?thesis by (simp add: extractTableCore_def)
next
  case (Inr t)
  obtain h d where t: "t = (h, d)" by (cases t)
  from assms Inr t have hh: "header = h" and rr: "rows = map (padRow (length h)) d"
    by (auto simp: extractTableCore_def)
  have "length rows = length d" by (simp add: rr)
  moreover have "\<forall>i < length rows.
              length (rows ! i) = length header \<and>
              rows ! i = take (length header) (d ! i)
                           @ replicate (length header - length (d ! i)) []"
  proof (intro allI impI conjI)
    fix i assume "i < length rows"
    then have i: "rows ! i = padRow (length header) (d ! i)" by (simp add: rr hh)
    show "length (rows ! i) = length header" unfolding i by (rule length_padRow)
    show "rows ! i = take (length header) (d ! i)
                       @ replicate (length header - length (d ! i)) []"
      unfolding i by (rule padRow_take_replicate)
  qed
  ultimately show ?thesis using Inr t hh by blast
qed

text \<open>
  C1 (as the code has it).  For every table that \<open>extractTable\<close> (of either copy)
  returns, every returned data row has exactly as many cells as the header: it is the
  row handed to the padding loop, right-padded with empty strings when that row is
  shorter than the header and cut to the header's length when it is longer.
\<close>

theorem extractTable_rows_fit_header:
  "(extractTable pf textEntities tableTitle = Inr (header, rows) \<longrightarrow>
      (\<exists>dataRows.
         tableBeforePadding (validateAndCorrectCutLengthRow pf)
           (processErectionMaterialsTable pf) textEntities tableTitle
           = Inr (header, dataRows) \<and>
         length rows = length dataRows \<and>
         (\<forall>i < length rows.
            length (rows ! i) = length header \<and>
            rows ! i = take (length header) (dataRows ! i)
                         @ replicate (length header - length (dataRows ! i)) []))) \<and>
   (extractTable_wd textEntities tableTitle = Inr (header, rows) \<longrightarrow>
      (\<exists>dataRows.
         tableBeforePadding validateAndCorrectCutLengthRow_wd
           processErectionMaterialsTable_wd textEntities tableTitle
           = Inr (header, dataRows) \<and>
         length rows = length dataRows \<and>
         (\<forall>i < length rows.
            length (rows ! i) = length header \<and>
            rows ! i = take (length header) (dataRows ! i)
                         @ replicate (length header - length (dataRows ! i)) [])))"
  unfolding extractTable_def extractTable_wd_def
  using extractTableCore_padding [of "validateAndCorrectCutLengthRow pf"
          "processErectionMaterialsTable pf" textEntities tableTitle header rows]
        extractTableCore_padding [of validateAndCorrectCutLengthRow_wd
          processErectionMaterialsTable_wd textEntities tableTitle header rows]
  by blast

lemma wideRowDrawing_before_padding:
  "tableBeforePadding validateAndCorrectCutLengthRow_wd processErectionMaterialsTable_wd
     wideRowDrawing ''ERECTION MATERIALS''
   = Inr ([''PT NO'', ''DESCRIPTION'', ''N.S.'', ''QTY'', ''WEIGHT'', ''CATEGORY''],
          [[''1'', ''PIPE'', ''SCH'', ''40'', ''25'', [], ''3.1'']])"
  by (simp add: wideRowDrawing_def table_eval str_eval processErectionMaterialsTable_wd_def
      dataRow_wd_def)

lemma wideRowDrawing_table:
  "extractTable_wd wideRowDrawing ''ERECTION MATERIALS''
   = Inr ([''PT NO'', ''DESCRIPTION'', ''N.S.'', ''QTY'', ''WEIGHT'', ''CATEGORY''],
          [[''1'', ''PIPE'', ''SCH'', ''40'', ''25'', []]])"
  by (simp add: extractTable_wd_def extractTableCore_def wideRowDrawing_before_padding
      padRow_def cellAt_def upt_conv_Cons)

theorem extractTable_rows_fit_header_witness:
  "extractTable_wd wideRowDrawing ''ERECTION MATERIALS''
     = Inr ([''PT NO'', ''DESCRIPTION'', ''N.S.'', ''QTY'', ''WEIGHT'', ''CATEGORY''],
            [[''1'', ''PIPE'', ''SCH'', ''40'', ''25'', []]]) \<and>
   (\<exists>dataRows.
      tableBeforePadding validateAndCorrectCutLengthRow_wd
        processErectionMaterialsTable_wd wideRowDrawing ''ERECTION MATERIALS''
        = Inr ([''PT NO'', ''DESCRIPTION'', ''N.S.'', ''QTY'', ''WEIGHT'', ''CATEGORY''],
               dataRows) \<and>
      length dataRows = 1)"
proof -
  note t = wideRowDrawing_table
  from extractTable_rows_fit_header [of parseDecimal wideRowDrawing "''ERECTION MATERIALS''"
      "[''PT NO'', ''DESCRIPTION'', ''N.S.'', ''QTY'', ''WEIGHT'', ''CATEGORY'']"
      "[[''1'', ''PIPE'', ''SCH'', ''40'', ''25'', []]]"] t
  show ?thesis by auto
qed

text \<open>
  C1 as stated fails: the data row of \<open>wideRowDrawing\<close> reaches the padding loop with
  seven cells, the header has six, and the returned row has lost the cell "3.1".
\<close>

theorem extractTable_truncates_long_row:
  "tableBeforePadding validateAndCorrectCutLengthRow_wd processErectionMaterialsTable_wd
     wideRowDrawing ''ERECTION MATERIALS''
     = Inr ([''PT NO'', ''DESCRIPTION'', ''N.S.'', ''QTY'', ''WEIGHT'', ''CATEGORY''],
            [[''1'', ''PIPE'', ''SCH'', ''40'', ''25'', [], ''3.1'']]) \<and>
   extractTable_wd wideRowDrawing ''ERECTION MATERIALS''
     = Inr ([''PT NO'', ''DESCRIPTION'', ''N.S.'', ''QTY'', ''WEIGHT'', ''CATEGORY''],
            [[''1'', ''PIPE'', ''SCH'', ''40'', ''25'', []]])"
  using wideRowDrawing_before_padding wideRowDrawing_table by blast

subsection \<open>Category headers of the materials table\<close>

lemma fst_rowFlags:
  assumes "row ! 0 \<noteq> []"
  shows "fst (rowFlags row) \<longleftrightarrow>
           row ! 0 = ''TOTAL ERECTION WEIGHT'' \<or> row ! 0 = ''TOTAL WEIGHT'' \<or>
           (cellAt row 1 = [] \<and> cellAt row 3 = [])"
  using assms by (auto simp: rowFlags_def cellAt_def Let_def)

lemma snd_rowFlags:
  assumes "row ! 0 \<noteq> []"
  shows "snd (rowFlags row) \<longleftrightarrow>
           row ! 0 = ''TOTAL ERECTION WEIGHT'' \<or> row ! 0 = ''TOTAL WEIGHT''"
  using assms by (auto simp: rowFlags_def Let_def)

text \<open>
  C3 (as the code has it).  In materials-table post-processing (of either copy), a row
  whose first cell is non-empty is a category header - consumed rather than emitted,
  its first cell becoming the current category - exactly when its first cell is neither
  "TOTAL ERECTION WEIGHT" nor "TOTAL WEIGHT" and its cells at indices 1 and 3 (0-indexed)
  are both empty or absent.  A row whose first cell is one of the two literals is a total
  row: it is emitted, reshaped to six columns with the weight in column 4 and the literal
  in column 5, and leaves the current category as it is.  Every other row with a
  non-empty first cell is emitted as a data row stamped with the current category.
\<close>

theorem materialsLoop_category_header:
  assumes "length row > 0" and "row ! 0 \<noteq> []"
  shows "materialsLoop emit currentCategory (row # rest) =
           (if row ! 0 = ''TOTAL ERECTION WEIGHT'' \<or> row ! 0 = ''TOTAL WEIGHT''
            then [[], [], [], [], cellAt row 1, row ! 0]
                   # materialsLoop emit currentCategory rest
            else if cellAt row 1 = [] \<and> cellAt row 3 = []
            then materialsLoop emit (row ! 0) rest
            else emit currentCategory row # materialsLoop emit currentCategory rest)"
proof -
  have t: "totalRow row = [[], [], [], [], cellAt row 1, row ! 0]"
    by (simp add: totalRow_def cellAt_def Let_def)
  from assms show ?thesis
    by (simp add: fst_rowFlags [OF assms(2)] snd_rowFlags [OF assms(2)] t)
qed

theorem materialsLoop_category_header_witness:
  "length [''PIPE''] > 0 \<and> [''PIPE''] ! 0 \<noteq> [] \<and>
   materialsLoop dataRow_wd [] [[''PIPE''], [''A1'', ''DescA'', ''25'', ''2'', ''1.5'', []]]
     = [[''A1'', ''DescA'', ''25'', ''2'', ''1.5'', ''PIPE'']]"
proof -
  have a: "length [''PIPE''] > 0" by simp
  have b: "[''PIPE''] ! 0 \<noteq> []" by simp
  have "materialsLoop dataRow_wd [] [[''PIPE''], [''A1'', ''DescA'', ''25'', ''2'', ''1.5'', []]]
          = materialsLoop dataRow_wd ''PIPE'' [[''A1'', ''DescA'', ''25'', ''2'', ''1.5'', []]]"
    using materialsLoop_category_header [OF a b, of dataRow_wd "[]"
        "[[''A1'', ''DescA'', ''25'', ''2'', ''1.5'', []]]"]
    by (simp add: cellAt_def)
  also have "\<dots> = [[''A1'', ''DescA'', ''25'', ''2'', ''1.5'', ''PIPE'']]"
    by (simp add: rowFlags_def dataRow_wd_def finishDataRow_def Let_def str_eval)
  finally show ?thesis using a b by blast
qed

text \<open>
  C3 as stated fails.  The row ["3", "GASKET", "", "4", ""] has empty cells at indices 2
  and 4 and is emitted as a data row; the row ["PIPE", "", "25", "", "1.0"] has non-empty
  cells at indices 2 and 4 and is consumed as a category header; the row
  ["TOTAL WEIGHT", "12.5"] is emitted, not consumed.
\<close>

theorem processErectionMaterialsTable_indices_1_and_3:
  "processErectionMaterialsTable_wd [[''3'', ''GASKET'', [], ''4'', []]]
     = [[''3'', ''GASKET'', [], ''4'', [], []]] \<and>
   processErectionMaterialsTable_wd
     [[''PIPE'', [], ''25'', [], ''1.0''], [''1'', ''TUBE'', ''25'', ''2'', ''3'']]
     = [[''1'', ''TUBE'', ''25'', ''2'', ''3'', ''PIPE'']] \<and>
   processErectionMaterialsTable_wd [[''TOTAL WEIGHT'', ''12.5'']]
     = [[[], [], [], [], ''12.5'', ''TOTAL WEIGHT'']]"
  by (simp add: processErectionMaterialsTable_wd_def rowFlags_def totalRow_def dataRow_wd_def
      finishDataRow_def Let_def str_eval)

subsection \<open>Rows are keyed by the rounded Y\<close>
















subsection \<open>Drawings with more than one materials table\<close>

lemmas materials_eval =
  extractTable_def processErectionMaterialsTable_def dataRow_def fixMissingNS_def
  parseDecimal_def parseUnsigned_def digitValue_def

text \<open>
  C2 (the code at a failing input).  \<open>twoSheetDrawing\<close> holds two sheets, each with its
  own "ERECTION MATERIALS" title; reconstructed alone, the upper sheet gives the PIPE row
  and the lower sheet the ELBOW row, so page-wise extraction would return both rows in
  that order.  \<open>extractTable\<close> stops at the first title in the fragment list.  When that is
  the title of the lower sheet, the upper sheet is lost altogether; when it is the title
  of the upper sheet (the fragments in the other order), the title and header rows of the
  lower sheet are read as rows of the one table.
\<close>

theorem extractTable_first_title_only:
  "extractTable parseDecimal sheetOneFragments ''ERECTION MATERIALS''
     = Inr ([''PT NO'', ''DESCRIPTION'', ''N.S.'', ''QTY'', ''WEIGHT'', ''CATEGORY''],
            [[''1'', ''PIPE'', ''25'', ''2.4'', ''3.1'', []]]) \<and>
   extractTable parseDecimal sheetTwoFragments ''ERECTION MATERIALS''
     = Inr ([''PT NO'', ''DESCRIPTION'', ''N.S.'', ''QTY'', ''WEIGHT'', ''CATEGORY''],
            [[''1'', ''ELBOW'', ''25'', ''2'', ''0.9'', []]]) \<and>
   extractTable parseDecimal twoSheetDrawing ''ERECTION MATERIALS''
     = Inr ([''PT NO'', ''DESCRIPTION'', ''N.S.'', ''QTY'', ''WEIGHT'', ''CATEGORY''],
            [[''1'', ''ELBOW'', ''25'', ''2'', ''0.9'', []]]) \<and>
   extractTable parseDecimal (sheetOneFragments @ sheetTwoFragments) ''ERECTION MATERIALS''
     = Inr ([''PT NO'', ''DESCRIPTION'', ''N.S.'', ''QTY'', ''WEIGHT'', ''CATEGORY''],
            [[''1'', ''PIPE'', ''25'', ''2.4'', ''3.1'', []],
             [''PT'', ''DESCRIPTION'', ''N.S.'', ''QTY'', ''WEIGHT'', ''ERECTION MATERIALS''],
             [''1'', ''ELBOW'', ''25'', ''2'', ''0.9'', ''NO'']])"
proof (intro conjI)
  show "extractTable parseDecimal sheetOneFragments ''ERECTION MATERIALS''
     = Inr ([''PT NO'', ''DESCRIPTION'', ''N.S.'', ''QTY'', ''WEIGHT'', ''CATEGORY''],
            [[''1'', ''PIPE'', ''25'', ''2.4'', ''3.1'', []]])"
    by (simp add: sheetOneFragments_def materials_eval table_eval str_eval)
  show "extractTable parseDecimal sheetTwoFragments ''ERECTION MATERIALS''
     = Inr ([''PT NO'', ''DESCRIPTION'', ''N.S.'', ''QTY'', ''WEIGHT'', ''CATEGORY''],
            [[''1'', ''ELBOW'', ''25'', ''2'', ''0.9'', []]])"
    by (simp add: sheetTwoFragments_def materials_eval table_eval str_eval)
  show "extractTable parseDecimal twoSheetDrawing ''ERECTION MATERIALS''
     = Inr ([''PT NO'', ''DESCRIPTION'', ''N.S.'', ''QTY'', ''WEIGHT'', ''CATEGORY''],
            [[''1'', ''ELBOW'', ''25'', ''2'', ''0.9'', []]])"
    by (simp add: twoSheetDrawing_def sheetOneFragments_def sheetTwoFragments_def
        materials_eval table_eval str_eval)
  show "extractTable parseDecimal (sheetOneFragments @ sheetTwoFragments)
          ''ERECTION MATERIALS''
     = Inr ([''PT NO'', ''DESCRIPTION'', ''N.S.'', ''QTY'', ''WEIGHT'', ''CATEGORY''],
            [[''1'', ''PIPE'', ''25'', ''2.4'', ''3.1'', []],
             [''PT'', ''DESCRIPTION'', ''N.S.'', ''QTY'', ''WEIGHT'', ''ERECTION MATERIALS''],
             [''1'', ''ELBOW'', ''25'', ''2'', ''0.9'', ''NO'']])"
    by (simp add: sheetOneFragments_def sheetTwoFragments_def
        materials_eval table_eval str_eval)
qed

end
